theory Spec2Isabelle
  imports Main
begin

section \<open>JavaScript values used by the library\<close>

text \<open>
  The library is TypeScript. Its declared types are taken as the data model: a field
  declared \<open>number\<close> is an integer, \<open>string\<close> a string, \<open>boolean\<close> a bool.
  Two values the run time can put into such a field whatever its declared type are kept:
  \<^item> \<open>undefined\<close>, which a property read gives when the wire omitted the child; a field
    filled from the wire is therefore an \<open>option\<close>, and \<open>None\<close> is \<open>undefined\<close>;
  \<^item> \<open>NaN\<close>, which \<open>parseInt\<close> gives for text that does not start with a numeral; the
    three fields filled by \<open>parseInt\<close> are \<open>int option\<close> with \<open>None\<close> for \<open>NaN\<close>.
  Fractions, infinities and integers outside the safe range of a double (a magnitude
  above 2^53 - 1, where \<open>parseInt\<close> and the arithmetic round) are outside the model,
  and so are characters beyond ASCII.
\<close>

datatype error =
    Error string    \<comment> \<open>\<open>throw new Error(message)\<close>\<close>
  | TypeError       \<comment> \<open>raised by the run time: a property read or a call on \<open>undefined\<close>\<close>

text \<open>Truthiness of a number that may be \<open>undefined\<close>: \<open>undefined\<close> and \<open>0\<close> are falsy.\<close>

definition truthy_number :: "int option \<Rightarrow> bool" where
  "truthy_number v = (case v of None \<Rightarrow> False | Some n \<Rightarrow> n \<noteq> 0)"

text \<open>Truthiness of a boolean that may be \<open>undefined\<close>.\<close>

definition truthy_boolean :: "bool option \<Rightarrow> bool" where
  "truthy_boolean v = (case v of None \<Rightarrow> False | Some b \<Rightarrow> b)"

subsection \<open>\<open>Number.prototype.toString\<close> and \<open>parseInt\<close>\<close>

definition digit_char :: "nat \<Rightarrow> char" where
  "digit_char d = char_of (48 + d)"

function digits :: "nat \<Rightarrow> string" where
  "digits n = (if n < 10 then [digit_char n] else digits (n div 10) @ [digit_char (n mod 10)])"
  by pat_completeness auto
termination
  by (relation "measure (\<lambda>n. n)") auto

declare digits.simps [simp del]

text \<open>\<open>n.toString()\<close> of a number, and the text the XML builder writes for a number.\<close>

definition toString :: "int option \<Rightarrow> string" where
  "toString v =
     (case v of
        None \<Rightarrow> ''NaN''
      | Some i \<Rightarrow> (if i < 0 then CHR ''-'' # digits (nat (- i)) else digits (nat i)))"

definition isWhiteSpace :: "char \<Rightarrow> bool" where
  "isWhiteSpace c = (of_char c \<in> {9, 10, 11, 12, 13, 32 :: nat})"

text \<open>The value of a character as a digit of a radix up to 36, as \<open>parseInt\<close> reads it.\<close>

definition digit_value :: "char \<Rightarrow> nat option" where
  "digit_value c =
     (let k = (of_char c :: nat) in
      if 48 \<le> k \<and> k \<le> 57 then Some (k - 48)
      else if 97 \<le> k \<and> k \<le> 122 then Some (k - 87)
      else if 65 \<le> k \<and> k \<le> 90 then Some (k - 55)
      else None)"

definition is_digit_of :: "nat \<Rightarrow> char \<Rightarrow> bool" where
  "is_digit_of radix c = (case digit_value c of None \<Rightarrow> False | Some d \<Rightarrow> d < radix)"

definition numeral_value :: "nat \<Rightarrow> string \<Rightarrow> nat" where
  "numeral_value radix z = foldl (\<lambda>acc c. acc * radix + the (digit_value c)) 0 z"

text \<open>
  \<open>parseInt(s)\<close> with no radix: leading white space is skipped, one sign is read, a
  \<open>0x\<close> or \<open>0X\<close> prefix selects radix 16, the longest run of digits is the value, and
  no digit at all is \<open>NaN\<close>. \<open>parseInt(undefined)\<close> reads the text \<open>undefined\<close>: \<open>NaN\<close>.
  The value is exact here; JavaScript rounds a numeral beyond the safe range to the
  nearest double, and such numerals are outside the model.
\<close>

definition parseInt :: "string option \<Rightarrow> int option" where
  "parseInt v =
     (case v of
        None \<Rightarrow> None
      | Some inputString \<Rightarrow>
          (let s = dropWhile isWhiteSpace inputString;
               negative = (take 1 s = ''-'');
               s1 = (if take 1 s = ''-'' \<or> take 1 s = ''+'' then drop 1 s else s);
               hex = (take 2 s1 = ''0x'' \<or> take 2 s1 = ''0X'');
               radix = (if hex then 16 else 10);
               s2 = (if hex then drop 2 s1 else s1);
               z = takeWhile (is_digit_of radix) s2
           in if z = [] then None
              else Some (if negative then - int (numeral_value radix z)
                         else int (numeral_value radix z))))"

section \<open>Messages (\<open>src/message.ts\<close>)\<close>

datatype MessageType =
  Header | Reject | Nick | Begin | Move | Notification | GameOver | Restart | Chat | GameOptions

text \<open>The numeric value of each member of the enum, in declaration order from 0.\<close>

fun MessageType_code :: "MessageType \<Rightarrow> int" where
  "MessageType_code Header = 0"
| "MessageType_code Reject = 1"
| "MessageType_code Nick = 2"
| "MessageType_code Begin = 3"
| "MessageType_code Move = 4"
| "MessageType_code Notification = 5"
| "MessageType_code GameOver = 6"
| "MessageType_code Restart = 7"
| "MessageType_code Chat = 8"
| "MessageType_code GameOptions = 9"

text \<open>\<open>ShipDefinition\<close>: name, plural, number, size.\<close>

datatype ShipDefinition =
  ShipDefinition "string option" "string option" "int option" "int option"

datatype FieldState = Hit | Miss | Sink

type_synonym position = "int \<times> int"

text \<open>
  \<open>NotificationMessage\<close>: x, y, fieldState, sinkCoordinates. The constructor's
  \<open>fieldstate\<close> and \<open>death\<close> parameters are not fields; only \<open>fieldState\<close> is kept.
\<close>

datatype NotificationMessage =
  NotificationMessage "int option" "int option" FieldState "(position \<times> position) option"

text \<open>\<open>MoveMessage\<close>: x, y.\<close>

datatype MoveMessage = MoveMessage "int option" "int option"

text \<open>\<open>ChatMessage\<close>: text, nickname.\<close>

datatype ChatMessage = ChatMessage "string option" "string option"

text \<open>
  \<open>GameOptionsMessage\<close>: enabledAdjacentShips, allowMultipleOfSame, longestShip,
  boardWidth, boardHeight, shipDefinitions.
\<close>

datatype GameOptionsMessage =
  GameOptionsMessage "bool option" "bool option" "int option" "int option" "int option"
    "ShipDefinition list"

text \<open>
  The classes that extend \<open>Message\<close>; the constructor is the class (\<open>instanceof\<close>).
  \<open>HeaderMessage\<close>: protocolVersion, clientName, clientVersion, clientDescription.
  \<open>RejectMessage\<close>: versionMismatch, reason.
\<close>

datatype Message =
    HeaderMsg "string option" "string option" "int option" "string option"
  | GameOptionsMsg GameOptionsMessage
  | NickMsg "string option"
  | ChatMsg ChatMessage
  | BeginMsg
  | MoveMsg MoveMessage
  | NotificationMsg NotificationMessage
  | GameOverMsg
  | RestartMsg
  | RejectMsg "bool option" "string option"

text \<open>
  The \<open>type\<close> field, as each constructor passes it to \<open>super\<close>. The constructor of
  \<open>GameOptionsMessage\<close> passes \<open>MessageType.Header\<close>.
\<close>

fun type_field :: "Message \<Rightarrow> MessageType" where
  "type_field (HeaderMsg _ _ _ _) = Header"
| "type_field (GameOptionsMsg _) = Header"
| "type_field (NickMsg _) = Nick"
| "type_field (ChatMsg _) = Chat"
| "type_field BeginMsg = Begin"
| "type_field (MoveMsg _) = Move"
| "type_field (NotificationMsg _) = Notification"
| "type_field GameOverMsg = GameOver"
| "type_field RestartMsg = Restart"
| "type_field (RejectMsg _ _) = Reject"

text \<open>
  The constructor of \<open>NotificationMessage\<close>:
  \<^verbatim>\<open>if (fieldstate == 99) this.fieldState = "Miss"
  else { if (death) this.fieldState = "Sink" else this.fieldState = "Hit" }\<close>
\<close>

definition new_NotificationMessage ::
  "int option \<Rightarrow> int option \<Rightarrow> int option \<Rightarrow> bool option \<Rightarrow> (position \<times> position) option
     \<Rightarrow> NotificationMessage" where
  "new_NotificationMessage x y fieldstate death sinkCoordinates =
     NotificationMessage x y
       (if fieldstate = Some 99 then Miss
        else if truthy_boolean death then Sink else Hit)
       sinkCoordinates"

text \<open>\<open>MoveMessage.respond(message, shipCoordinates)\<close>.\<close>

datatype response = hit | miss | sink

fun respond :: "MoveMessage \<Rightarrow> response \<Rightarrow> (position \<times> position) option \<Rightarrow> NotificationMessage"
  where
  "respond (MoveMessage x y) message shipCoordinates =
     (if message \<noteq> sink
      then new_NotificationMessage x y (if message = miss then Some 99 else Some 1)
             (Some False) None
      else new_NotificationMessage x y (Some 1) (Some True) shipCoordinates)"

section \<open>The wire\<close>

text \<open>
  \<open>toXML\<close> hands an object to the XML builder of \<open>fast-xml-parser\<close> and \<open>fromXML\<close>
  reads the object its parser returns. That package is not part of the repository.
  The model takes the object as the wire: the document is the \<open>kmessage\<close> object, and
  the parser is taken to return the object the builder was given. The object is typed
  as the casts of \<open>fromXML\<close> read it; a child or attribute that is absent is \<open>None\<close>.
  Attributes are text on the wire, so a number written into an attribute is its
  \<open>toString\<close>.

  The parser of the package is not that inverse everywhere: it returns a lone \<open>ships\<close>
  element as an object and no \<open>ships\<close> child for an empty list, it trims text, and it
  turns text that reads as a number into a number. What is stated below of \<open>toXML\<close>
  followed by \<open>fromXML\<close> is stated at messages whose children are numbers and
  booleans, which the parser returns as the builder was given them; nothing is stated
  of the other messages.
\<close>

text \<open>The \<open>msgtype\<close> node: attribute \<open>type\<close> and the numeric text.\<close>

datatype msgtype = Msgtype "string option" "int option"

text \<open>The \<open>oneOrSeveralShips\<close> node: the boolean text and attribute \<open>longestShip\<close>.\<close>

datatype oneOrSeveralShips = OneOrSeveralShips "bool option" "string option"

text \<open>A \<open>ships\<close> node: attributes name, number, pluralName, size.\<close>

datatype ships = Ships "string option" "string option" "string option" "string option"

record kmessage =
  k_msgtype :: "msgtype option"
  k_protocolVersion :: "string option"
  k_clientName :: "string option"
  k_clientVersion :: "int option"
  k_clientDescription :: "string option"
  k_enabledAdjacentShips :: "bool option"
  k_oneOrSeveralShips :: "oneOrSeveralShips option"
  k_boardWidth :: "int option"
  k_boardHeight :: "int option"
  k_ships :: "ships list option"
  k_nickname :: "string option"
  k_chat :: "string option"
  k_fieldx :: "int option"
  k_fieldy :: "int option"
  k_fieldstate :: "int option"
  k_death :: "bool option"
  k_xstart :: "int option"
  k_xstop :: "int option"
  k_ystart :: "int option"
  k_ystop :: "int option"
  k_versionMismatch :: "bool option"
  k_reason :: "string option"

text \<open>
  What \<open>parser.parse\<close> returns: \<open>parsed.kmessage\<close> is \<open>None\<close> when the text has
  no \<open>kmessage\<close> root, or an empty one (the empty string, which is falsy as well).
\<close>

type_synonym xml = "kmessage option"

definition no_children :: kmessage where
  "no_children =
     \<lparr> k_msgtype = None, k_protocolVersion = None, k_clientName = None,
       k_clientVersion = None, k_clientDescription = None, k_enabledAdjacentShips = None,
       k_oneOrSeveralShips = None, k_boardWidth = None, k_boardHeight = None,
       k_ships = None, k_nickname = None, k_chat = None, k_fieldx = None, k_fieldy = None,
       k_fieldstate = None, k_death = None, k_xstart = None, k_xstop = None,
       k_ystart = None, k_ystop = None, k_versionMismatch = None, k_reason = None \<rparr>"

text \<open>A \<open>kmessage\<close> object holding only its \<open>msgtype\<close> node.\<close>

definition with_msgtype :: "string \<Rightarrow> int \<Rightarrow> kmessage" where
  "with_msgtype name code = no_children \<lparr> k_msgtype := Some (Msgtype (Some name) (Some code)) \<rparr>"

subsection \<open>\<open>toXML\<close>, class by class\<close>

definition HeaderMessage_toXML ::
  "string option \<Rightarrow> string option \<Rightarrow> int option \<Rightarrow> string option \<Rightarrow> xml" where
  "HeaderMessage_toXML protocolVersion clientName clientVersion clientDescription =
     Some ((with_msgtype ''Header'' 0)
       \<lparr> k_protocolVersion := protocolVersion, k_clientName := clientName,
         k_clientVersion := clientVersion, k_clientDescription := clientDescription \<rparr>)"

definition NickMessage_toXML :: "string option \<Rightarrow> xml" where
  "NickMessage_toXML nickname = Some ((with_msgtype ''Nick'' 2) \<lparr> k_nickname := nickname \<rparr>)"

fun ship_toXML :: "ShipDefinition \<Rightarrow> ships" where
  "ship_toXML (ShipDefinition name plural number' size') =
     Ships name (Some (toString number')) plural (Some (toString size'))"

fun GameOptionsMessage_toXML :: "GameOptionsMessage \<Rightarrow> xml" where
  "GameOptionsMessage_toXML (GameOptionsMessage enabledAdjacentShips allowMultipleOfSame
       longestShip boardWidth boardHeight shipDefinitions) =
     Some ((with_msgtype ''GameOptions'' 9)
       \<lparr> k_enabledAdjacentShips := enabledAdjacentShips,
         k_oneOrSeveralShips :=
           Some (OneOrSeveralShips allowMultipleOfSame (Some (toString longestShip))),
         k_boardWidth := boardWidth, k_boardHeight := boardHeight,
         k_ships := Some (map ship_toXML shipDefinitions) \<rparr>)"

fun ChatMessage_toXML :: "ChatMessage \<Rightarrow> xml" where
  "ChatMessage_toXML (ChatMessage text nickname) =
     Some ((with_msgtype ''Chat'' 8) \<lparr> k_chat := text, k_nickname := nickname \<rparr>)"

definition BeginMessage_toXML :: xml where
  "BeginMessage_toXML = Some (with_msgtype ''Begin'' 3)"

text \<open>
  \<open>NotificationMessage.toXML\<close>. In the \<open>Sink\<close> branch \<open>this.sinkCoordinates![0][0]\<close>
  raises a \<open>TypeError\<close> when \<open>sinkCoordinates\<close> is \<open>undefined\<close>.
\<close>

fun NotificationMessage_toXML :: "NotificationMessage \<Rightarrow> error + xml" where
  "NotificationMessage_toXML (NotificationMessage x y fieldState sinkCoordinates) =
     (if fieldState \<noteq> Sink
      then Inr (Some ((with_msgtype ''Notification'' 5)
             \<lparr> k_fieldx := x, k_fieldy := y,
               k_fieldstate := Some (if fieldState = Miss then 99 else 1) \<rparr>))
      else (case sinkCoordinates of
              None \<Rightarrow> Inl TypeError
            | Some (start, stop) \<Rightarrow>
                Inr (Some ((with_msgtype ''Notification'' 5)
                  \<lparr> k_fieldx := x, k_fieldy := y, k_fieldstate := Some 1,
                    k_death := Some True,
                    k_xstart := Some (fst start), k_xstop := Some (fst stop),
                    k_ystart := Some (snd start), k_ystop := Some (snd stop) \<rparr>))))"

fun MoveMessage_toXML :: "MoveMessage \<Rightarrow> xml" where
  "MoveMessage_toXML (MoveMessage x y) =
     Some ((with_msgtype ''Move'' 4) \<lparr> k_fieldx := x, k_fieldy := y \<rparr>)"

definition GameOverMessage_toXML :: xml where
  "GameOverMessage_toXML = Some (with_msgtype ''GameOver'' 6)"

definition RestartMessage_toXML :: xml where
  "RestartMessage_toXML = Some (with_msgtype ''Restart'' 7)"

definition RejectMessage_toXML :: "bool option \<Rightarrow> string option \<Rightarrow> xml" where
  "RejectMessage_toXML versionMismatch reason =
     Some ((with_msgtype ''Reject'' 1)
       \<lparr> k_versionMismatch := versionMismatch, k_reason := reason \<rparr>)"

text \<open>The abstract method \<open>Message.toXML\<close>: the call goes to the class of the message.\<close>

fun toXML :: "Message \<Rightarrow> error + xml" where
  "toXML (HeaderMsg protocolVersion clientName clientVersion clientDescription) =
     Inr (HeaderMessage_toXML protocolVersion clientName clientVersion clientDescription)"
| "toXML (GameOptionsMsg m) = Inr (GameOptionsMessage_toXML m)"
| "toXML (NickMsg nickname) = Inr (NickMessage_toXML nickname)"
| "toXML (ChatMsg m) = Inr (ChatMessage_toXML m)"
| "toXML BeginMsg = Inr BeginMessage_toXML"
| "toXML (MoveMsg m) = Inr (MoveMessage_toXML m)"
| "toXML (NotificationMsg m) = NotificationMessage_toXML m"
| "toXML GameOverMsg = Inr GameOverMessage_toXML"
| "toXML RestartMsg = Inr RestartMessage_toXML"
| "toXML (RejectMsg versionMismatch reason) = Inr (RejectMessage_toXML versionMismatch reason)"

subsection \<open>\<open>Message.fromXML\<close>\<close>

fun ship_fromXML :: "ships \<Rightarrow> ShipDefinition" where
  "ship_fromXML (Ships name number' pluralName size') =
     ShipDefinition name pluralName (parseInt number') (parseInt size')"

text \<open>The text of \<open>Unknown message type: ${type}\<close>.\<close>

definition unknown_message_type :: "int option \<Rightarrow> string" where
  "unknown_message_type t =
     ''Unknown message type: '' @ (case t of None \<Rightarrow> ''undefined'' | Some n \<Rightarrow> toString (Some n))"

text \<open>
  The \<open>switch\<close> compares the type code with each member of the enum, in the order of
  the source. Reading \<open>['#text']\<close> of an absent \<open>msgtype\<close> or \<open>oneOrSeveralShips\<close>,
  and calling \<open>map\<close> on an absent \<open>ships\<close>, raise a \<open>TypeError\<close>.
\<close>

definition fromXML :: "xml \<Rightarrow> error + Message" where
  "fromXML parsed =
     (case parsed of
        None \<Rightarrow> Inl (Error ''invalid formatting'')
      | Some kmessage \<Rightarrow>
          (case k_msgtype kmessage of
             None \<Rightarrow> Inl TypeError
           | Some (Msgtype type_attr typeNum) \<Rightarrow>
               if typeNum = Some (MessageType_code Header) then
                 Inr (HeaderMsg (k_protocolVersion kmessage) (k_clientName kmessage)
                        (k_clientVersion kmessage) (k_clientDescription kmessage))
               else if typeNum = Some (MessageType_code GameOptions) then
                 (case k_oneOrSeveralShips kmessage of
                    None \<Rightarrow> Inl TypeError
                  | Some (OneOrSeveralShips text longestShip) \<Rightarrow>
                      (case k_ships kmessage of
                         None \<Rightarrow> Inl TypeError
                       | Some ships \<Rightarrow>
                           Inr (GameOptionsMsg (GameOptionsMessage
                                  (k_enabledAdjacentShips kmessage) text (parseInt longestShip)
                                  (k_boardWidth kmessage) (k_boardHeight kmessage)
                                  (map ship_fromXML ships)))))
               else if typeNum = Some (MessageType_code Nick) then
                 Inr (NickMsg (k_nickname kmessage))
               else if typeNum = Some (MessageType_code Chat) then
                 Inr (ChatMsg (ChatMessage (k_chat kmessage) (k_nickname kmessage)))
               else if typeNum = Some (MessageType_code Begin) then
                 Inr BeginMsg
               else if typeNum = Some (MessageType_code Move) then
                 Inr (MoveMsg (MoveMessage (k_fieldx kmessage) (k_fieldy kmessage)))
               else if typeNum = Some (MessageType_code Notification) then
                 Inr (NotificationMsg (new_NotificationMessage
                        (k_fieldx kmessage) (k_fieldy kmessage) (k_fieldstate kmessage)
                        (k_death kmessage)
                        (if truthy_number (k_xstart kmessage) \<and> truthy_number (k_xstop kmessage)
                            \<and> truthy_number (k_ystart kmessage) \<and> truthy_number (k_ystop kmessage)
                         then Some ((the (k_xstart kmessage), the (k_ystart kmessage)),
                                    (the (k_xstop kmessage), the (k_ystop kmessage)))
                         else None)))
               else if typeNum = Some (MessageType_code GameOver) then
                 Inr GameOverMsg
               else if typeNum = Some (MessageType_code Restart) then
                 Inr RestartMsg
               else if typeNum = Some (MessageType_code Reject) then
                 Inr (RejectMsg (k_versionMismatch kmessage) (k_reason kmessage))
               else Inl (Error (unknown_message_type typeNum))))"

section \<open>The client (\<open>NavalClient\<close>)\<close>

datatype GameState =
    DISCONNECTED
  | SHIP_SETUP
  | FIRE_SHIPS_SELF
  | AWAIT_RESPONSE_SELF
  | FIRE_SHIPS_OTHER
  | AWAIT_RESPONSE_OTHER
  | GAME_OVER

text \<open>\<open>Player\<close>: me, nickname.\<close>

datatype Player = Player bool "string option"

record game_options =
  adjacentShips :: "bool option"
  allowMultipleOfSame :: "bool option"
  longestShip :: "int option"
  boardWidth :: "int option"
  boardHeight :: "int option"
  shipDefinitions :: "ShipDefinition list"

text \<open>The events of the emitter, each with its argument.\<close>

datatype event =
    E_raw xml
  | E_connect Player
  | E_chat ChatMessage
  | E_begin bool
  | E_move MoveMessage
  | E_canFire
  | E_gameOver "Player option"

text \<open>
  The socket, as far as the client uses it: what was written to it (oldest first),
  whether \<open>end()\<close> was called, and how many \<open>once('close', ...)\<close> listeners wait.
\<close>

record socket =
  written :: "xml list"
  ended :: bool
  once_close :: nat

text \<open>
  The fields of the class, then what the model keeps of the emitter and the promises:
  \<^item> \<open>raw_listeners\<close>: the \<open>waitForNotification\<close> closures registered on \<open>raw\<close>, in the
    order of registration, each named by the position it captured. Each is the pending
    promise of one \<open>sendFireAt\<close>;
  \<^item> \<open>resolved\<close>: the promises resolved so far, with the position fired at and the
    notification they were resolved with;
  \<^item> \<open>emitted\<close>: the events emitted so far.
  The code never calls \<open>rej\<close>: a promise of \<open>sendFireAt\<close> is rejected only by a
  \<open>throw\<close> before it registers its listener, and that is the error the model returns.
\<close>

record NavalClient =
  nickname :: string
  gameState :: GameState
  gameOptions :: game_options
  socket :: "socket option"
  firedAt :: "position list"
  opponent :: "Player option"
  raw_listeners :: "position list"
  resolved :: "(position \<times> NotificationMessage) list"
  emitted :: "event list"

text \<open>
  A method returns the error it threw, if any, and the client as the call left it.
\<close>

type_synonym outcome = "error option \<times> NavalClient"

definition new_NavalClient :: "string \<Rightarrow> NavalClient" where
  "new_NavalClient nick =
     \<lparr> nickname = nick,
       gameState = DISCONNECTED,
       gameOptions =
         \<lparr> adjacentShips = Some True, allowMultipleOfSame = Some False,
           longestShip = Some 4, boardWidth = Some 10, boardHeight = Some 10,
           shipDefinitions =
             [ ShipDefinition (Some ''minesweeper'') (Some ''minesweepers'') (Some 1) (Some 1),
               ShipDefinition (Some ''frigate'') (Some ''frigates'') (Some 1) (Some 2),
               ShipDefinition (Some ''cruise'') (Some ''cruises'') (Some 1) (Some 3),
               ShipDefinition (Some ''carrier'') (Some ''carriers'') (Some 1) (Some 4) ] \<rparr>,
       socket = None,
       firedAt = [],
       opponent = None,
       raw_listeners = [],
       resolved = [],
       emitted = [] \<rparr>"

text \<open>\<open>this.#socket?.write(data)\<close>: nothing happens while there is no socket.\<close>

definition socket_write :: "NavalClient \<Rightarrow> xml \<Rightarrow> NavalClient" where
  "socket_write c data =
     c \<lparr> socket := map_option (\<lambda>s. s \<lparr> written := written s @ [data] \<rparr>) (socket c) \<rparr>"

definition emit :: "NavalClient \<Rightarrow> event \<Rightarrow> NavalClient" where
  "emit c ev = c \<lparr> emitted := emitted c @ [ev] \<rparr>"

definition sendChatMessage :: "NavalClient \<Rightarrow> string \<Rightarrow> outcome" where
  "sendChatMessage c text =
     (None, socket_write c (ChatMessage_toXML (ChatMessage (Some text) (Some (nickname c)))))"

definition sendGameOver :: "NavalClient \<Rightarrow> outcome" where
  "sendGameOver c =
     (if gameState c = FIRE_SHIPS_SELF
      then (Some (Error ''you can only send game over after sending a move response''), c)
      else (None, socket_write (emit c (E_gameOver (opponent c))) GameOverMessage_toXML))"

definition requestRestart :: "NavalClient \<Rightarrow> outcome" where
  "requestRestart c = (None, socket_write c RestartMessage_toXML)"

text \<open>
  \<open>#handleMessage\<close>. A \<open>NotificationMessage\<close>, a \<open>RestartMessage\<close> and a
  \<open>RejectMessage\<close> match none of the \<open>instanceof\<close> tests: nothing is done for them.
\<close>

definition handleMessage :: "NavalClient \<Rightarrow> xml \<Rightarrow> outcome" where
  "handleMessage c xmlStr =
     (case fromXML xmlStr of
        Inl e \<Rightarrow> (Some e, c)
      | Inr message \<Rightarrow>
          (case message of
             HeaderMsg _ _ _ _ \<Rightarrow>
               (None, socket_write c (HeaderMessage_toXML (Some ''0.1.0'') (Some ''KBattleship'')
                                 (Some 4) (Some ''The Naval Battle game'')))
           | GameOptionsMsg (GameOptionsMessage enabledAdjacentShips allowMultiple longest
                 width height definitions) \<Rightarrow>
               (None,
                socket_write
                  (c \<lparr> gameOptions :=
                         \<lparr> adjacentShips = enabledAdjacentShips,
                           allowMultipleOfSame = allowMultiple,
                           longestShip = longest,
                           boardWidth = width,
                           boardHeight = height,
                           shipDefinitions = definitions \<rparr> \<rparr>)
                  (GameOptionsMessage_toXML (GameOptionsMessage enabledAdjacentShips
                     allowMultiple longest width height definitions)))
           | NickMsg nick \<Rightarrow>
               (None,
                emit
                  ((socket_write (c \<lparr> gameState := SHIP_SETUP \<rparr>) (NickMessage_toXML (Some (nickname c))))
                     \<lparr> opponent := Some (Player False nick) \<rparr>)
                  (E_connect (Player False nick)))
           | ChatMsg m \<Rightarrow> (None, emit c (E_chat m))
           | BeginMsg \<Rightarrow>
               (None,
                emit
                  ((socket_write c BeginMessage_toXML)
                     \<lparr> firedAt := [], gameState := FIRE_SHIPS_OTHER \<rparr>)
                  (E_begin (gameState c \<noteq> SHIP_SETUP)))
           | MoveMsg (MoveMessage x y) \<Rightarrow>
               (None, emit (c \<lparr> gameState := AWAIT_RESPONSE_SELF \<rparr>) (E_move (MoveMessage x y)))
           | GameOverMsg \<Rightarrow>
               (None,
                emit (c \<lparr> gameState := GAME_OVER \<rparr>)
                  (E_gameOver (Some (Player True (Some (nickname c))))))
           | _ \<Rightarrow> (None, c)))"

text \<open>
  \<open>sendMoveResponse\<close>. With no socket the optional call does not evaluate its
  argument, so \<open>toXML\<close> is not called; with a socket, a \<open>TypeError\<close> of \<open>toXML\<close>
  leaves the method before the state is written.
\<close>

definition sendMoveResponse :: "NavalClient \<Rightarrow> NotificationMessage \<Rightarrow> outcome" where
  "sendMoveResponse c notification =
     (if gameState c \<noteq> AWAIT_RESPONSE_SELF
      then (Some (Error ''cannot send response right now''), c)
      else
        (case socket c of
           None \<Rightarrow> (None, emit (c \<lparr> gameState := FIRE_SHIPS_SELF \<rparr>) E_canFire)
         | Some s \<Rightarrow>
             (case NotificationMessage_toXML notification of
                Inl e \<Rightarrow> (Some e, c)
              | Inr data \<Rightarrow>
                  (None, emit ((socket_write c data) \<lparr> gameState := FIRE_SHIPS_SELF \<rparr>) E_canFire))))"

text \<open>
  \<open>sendFireAt\<close>. The body of \<open>innerFunction\<close> runs at the call up to the end of the
  promise's executor. A \<open>throw\<close> of the two guards rejects the promise (or reaches the
  callback as \<open>err\<close>): that is the error returned here. Otherwise the listener is
  registered, the move is written, and the promise stays pending.
\<close>

definition sendFireAt :: "NavalClient \<Rightarrow> position \<Rightarrow> outcome" where
  "sendFireAt c position =
     (if gameState c \<noteq> FIRE_SHIPS_SELF
      then (Some (Error ''cannot fire at ships right now''), c)
      else if find (\<lambda>(x, y). x = fst position \<and> y = snd position) (firedAt c) \<noteq> None
      then (Some (Error ''already fired in this position''), c)
      else
        (None,
         socket_write (c \<lparr> raw_listeners := raw_listeners c @ [position] \<rparr>)
           (MoveMessage_toXML (MoveMessage (Some (fst position)) (Some (snd position))))))"

text \<open>
  The listener \<open>waitForNotification\<close> of the \<open>sendFireAt\<close> call that fired at
  \<open>position\<close>. \<open>this.off\<close> removes this listener; listeners that captured the same
  position are alike, so removing the first of them is removing this one.
\<close>

definition waitForNotification :: "position \<Rightarrow> NavalClient \<Rightarrow> xml \<Rightarrow> outcome" where
  "waitForNotification position c xmlStr =
     (case fromXML xmlStr of
        Inl e \<Rightarrow> (Some e, c)
      | Inr message \<Rightarrow>
          (case message of
             NotificationMsg (NotificationMessage x y fieldState sinkCoordinates) \<Rightarrow>
               if x = Some (fst position) \<and> y = Some (snd position)
               then (None,
                     c \<lparr> firedAt := firedAt c @ [position],
                         raw_listeners := remove1 position (raw_listeners c),
                         resolved := resolved c @
                           [(position, NotificationMessage x y fieldState sinkCoordinates)] \<rparr>)
               else (None, c)
           | _ \<Rightarrow> (None, c)))"

text \<open>
  \<open>emit('raw', str)\<close> calls the listeners that were registered when it started, in
  order; a listener that throws ends the call.
\<close>

fun call_raw_listeners :: "position list \<Rightarrow> NavalClient \<Rightarrow> xml \<Rightarrow> outcome" where
  "call_raw_listeners [] c str = (None, c)"
| "call_raw_listeners (position # listeners) c str =
     (case waitForNotification position c str of
        (Some e, c') \<Rightarrow> (Some e, c')
      | (None, c') \<Rightarrow> call_raw_listeners listeners c' str)"

text \<open>The handler of the socket's \<open>data\<close> event, registered by \<open>connect\<close>.\<close>

definition on_data :: "NavalClient \<Rightarrow> xml \<Rightarrow> outcome" where
  "on_data c str =
     (case call_raw_listeners (raw_listeners c) (emit c (E_raw str)) str of
        (Some e, c') \<Rightarrow> (Some e, c')
      | (None, c') \<Rightarrow> handleMessage c' str)"

definition connect :: "NavalClient \<Rightarrow> outcome" where
  "connect c =
     (if gameState c \<noteq> DISCONNECTED
      then (Some (Error ''already connected to a server''), c)
      else (None, c \<lparr> socket := Some \<lparr> written = [], ended = False, once_close = 0 \<rparr> \<rparr>))"

definition disconnect :: "NavalClient \<Rightarrow> outcome" where
  "disconnect c =
     (if gameState c = DISCONNECTED
      then (Some (Error ''not connected to a server, cannot disconnect''), c)
      else
        (None,
         c \<lparr> socket :=
               map_option (\<lambda>s. s \<lparr> ended := True, once_close := Suc (once_close s) \<rparr>)
                 (socket c) \<rparr>))"

text \<open>
  The socket's \<open>close\<close> event: the listeners that \<open>disconnect\<close> registered with
  \<open>once\<close> run and are removed. The client registers no other listener for it.
\<close>

definition on_close :: "NavalClient \<Rightarrow> NavalClient" where
  "on_close c =
     (case socket c of
        None \<Rightarrow> c
      | Some s \<Rightarrow>
          if once_close s = 0 then c
          else c \<lparr> gameState := DISCONNECTED, socket := Some (s \<lparr> once_close := 0 \<rparr>) \<rparr>)"

section \<open>Notions the properties are stated with\<close>

text \<open>Encoding a message and decoding what was written.\<close>

definition round_trip :: "Message \<Rightarrow> error + Message" where
  "round_trip m = (case toXML m of Inl e \<Rightarrow> Inl e | Inr data \<Rightarrow> fromXML data)"

text \<open>
  The type code \<open>fromXML\<close> switches on, \<open>kmessage.msgtype['#text']\<close>, where the input
  has one.
\<close>

definition type_code :: "xml \<Rightarrow> int option" where
  "type_code parsed =
     (case parsed of
        None \<Rightarrow> None
      | Some kmessage \<Rightarrow>
          (case k_msgtype kmessage of
             None \<Rightarrow> None
           | Some (Msgtype type_attr typeNum) \<Rightarrow> typeNum))"

text \<open>A document that holds a \<open>msgtype\<close> node with the code of a move and nothing else.\<close>

definition bare_move :: xml where
  "bare_move = Some (with_msgtype ''Move'' 4)"

subsection \<open>A session\<close>

text \<open>
  One client, \<open>A\<close>, through a game: it connects, the peer \<open>B\<close> sends its nickname,
  then \<open>Begin\<close>, then fires at (2, 2); \<open>A\<close> answers with a miss and fires at (3, 4).
\<close>

definition session_connected :: NavalClient where
  "session_connected = snd (connect (new_NavalClient ''A''))"

definition session_ship_setup :: NavalClient where
  "session_ship_setup = snd (on_data session_connected (NickMessage_toXML (Some ''B'')))"

definition session_fire_other :: NavalClient where
  "session_fire_other = snd (on_data session_ship_setup BeginMessage_toXML)"

definition session_await_self :: NavalClient where
  "session_await_self =
     snd (on_data session_fire_other (MoveMessage_toXML (MoveMessage (Some 2) (Some 2))))"

definition session_fire_self :: NavalClient where
  "session_fire_self =
     snd (sendMoveResponse session_await_self
            (respond (MoveMessage (Some 2) (Some 2)) miss None))"

definition session_pending :: NavalClient where
  "session_pending = snd (sendFireAt session_fire_self (3, 4))"


definition miss_at_3_4 :: xml where
  "miss_at_3_4 =
     Some ((with_msgtype ''Notification'' 5)
       \<lparr> k_fieldx := Some 3, k_fieldy := Some 4, k_fieldstate := Some 99 \<rparr>)"

text \<open>The peer answers the shot at (3, 4).\<close>

definition session_resolved :: NavalClient where
  "session_resolved = snd (on_data session_pending miss_at_3_4)"


section \<open>Properties of the codec\<close>

subsection \<open>Printing a number and reading it back\<close>

lemma digit_value_digit_char: "d < 10 \<Longrightarrow> digit_value (digit_char d) = Some d"
  by (simp add: digit_value_def digit_char_def Let_def)

lemma is_digit_of_digit_char: "d < 10 \<Longrightarrow> is_digit_of 10 (digit_char d)"
  by (simp add: is_digit_of_def digit_value_digit_char)

lemma digits_are_digits: "\<forall>c \<in> set (digits n). is_digit_of 10 c"
proof (induction n rule: digits.induct)
  case (1 n)
  show ?case
  proof (cases "n < 10")
    case True
    then show ?thesis by (subst digits.simps) (simp add: is_digit_of_digit_char)
  next
    case False
    with 1 show ?thesis by (subst digits.simps) (simp add: is_digit_of_digit_char)
  qed
qed

lemma digits_not_Nil: "digits n \<noteq> []"
  by (subst digits.simps) simp

lemma numeral_value_snoc:
  "numeral_value radix (z @ [c]) = numeral_value radix z * radix + the (digit_value c)"
  by (simp add: numeral_value_def)

lemma numeral_value_digits: "numeral_value 10 (digits n) = n"
proof (induction n rule: digits.induct)
  case (1 n)
  show ?case
  proof (cases "n < 10")
    case True
    then show ?thesis
      by (subst digits.simps) (simp add: numeral_value_def digit_value_digit_char)
  next
    case False
    with 1 have "numeral_value 10 (digits (n div 10)) = n div 10" by simp
    with False show ?thesis
      by (subst digits.simps) (simp add: numeral_value_snoc digit_value_digit_char)
  qed
qed

lemma is_digit_of_10_facts:
  assumes "is_digit_of 10 c"
  shows "\<not> isWhiteSpace c" and "c \<noteq> CHR ''-''" and "c \<noteq> CHR ''+''"
    and "c \<noteq> CHR ''x''" and "c \<noteq> CHR ''X''"
  using assms
  by (auto simp add: is_digit_of_def digit_value_def isWhiteSpace_def Let_def split: if_splits)

text \<open>What \<open>parseInt\<close> finds at each of its steps when the text is a decimal numeral.\<close>

lemma decimal_numeral_facts:
  assumes "z \<noteq> []" and "\<forall>c \<in> set z. is_digit_of 10 c"
  shows "dropWhile isWhiteSpace z = z"
    and "take (Suc 0) z \<noteq> ''-''" and "take (Suc 0) z \<noteq> ''+''"
    and "take 2 z \<noteq> ''0x''" and "take 2 z \<noteq> ''0X''"
    and "takeWhile (is_digit_of 10) z = z"
proof -
  obtain c cs where z: "z = c # cs" using assms(1) by (cases z) auto
  have c: "is_digit_of 10 c" using assms(2) z by simp
  show "dropWhile isWhiteSpace z = z"
    using z is_digit_of_10_facts(1) [OF c] by simp
  show "take (Suc 0) z \<noteq> ''-''" using z is_digit_of_10_facts(2) [OF c] by simp
  show "take (Suc 0) z \<noteq> ''+''" using z is_digit_of_10_facts(3) [OF c] by simp
  show "takeWhile (is_digit_of 10) z = z"
    using assms(2) by (simp add: takeWhile_eq_all_conv)
  show "take 2 z \<noteq> ''0x''"
  proof (cases cs)
    case Nil
    with z show ?thesis by simp
  next
    case (Cons d ds)
    then have "is_digit_of 10 d" using assms(2) z by simp
    then show ?thesis using Cons z is_digit_of_10_facts(4) [of d] by auto
  qed
  show "take 2 z \<noteq> ''0X''"
  proof (cases cs)
    case Nil
    with z show ?thesis by simp
  next
    case (Cons d ds)
    then have "is_digit_of 10 d" using assms(2) z by simp
    then show ?thesis using Cons z is_digit_of_10_facts(5) [of d] by auto
  qed
qed

lemma parseInt_decimal:
  assumes "z \<noteq> []" and "\<forall>c \<in> set z. is_digit_of 10 c"
  shows "parseInt (Some z) = Some (int (numeral_value 10 z))"
  using assms(1) by (simp add: parseInt_def Let_def decimal_numeral_facts [OF assms])

lemma parseInt_minus_decimal:
  assumes "z \<noteq> []" and "\<forall>c \<in> set z. is_digit_of 10 c"
  shows "parseInt (Some (CHR ''-'' # z)) = Some (- int (numeral_value 10 z))"
proof -
  have ws: "\<not> isWhiteSpace CHR ''-''" by (simp add: isWhiteSpace_def)
  show ?thesis
    using assms(1) ws by (simp add: parseInt_def Let_def decimal_numeral_facts(4,5,6) [OF assms])
qed

lemma parseInt_digits: "parseInt (Some (digits n)) = Some (int n)"
  using parseInt_decimal [OF digits_not_Nil digits_are_digits, of n]
  by (simp add: numeral_value_digits)

lemma parseInt_minus_digits: "parseInt (Some (CHR ''-'' # digits n)) = Some (- int n)"
  using parseInt_minus_decimal [OF digits_not_Nil digits_are_digits, of n]
  by (simp add: numeral_value_digits)

text \<open>
  A number of the model written by \<open>toString\<close> is read back by \<open>parseInt\<close>, \<open>NaN\<close>
  included.
\<close>

lemma parseInt_toString: "parseInt (Some (toString v)) = v"
proof (cases v)
  case None
  then show ?thesis by (simp add: toString_def) code_simp
next
  case (Some i)
  then show ?thesis
    using parseInt_digits [of "nat i"] parseInt_minus_digits [of "nat (- i)"]
    by (simp add: toString_def)
qed

subsection \<open>Encoding and decoding\<close>

lemmas toXML_defs =
  HeaderMessage_toXML_def NickMessage_toXML_def BeginMessage_toXML_def
  GameOverMessage_toXML_def RestartMessage_toXML_def RejectMessage_toXML_def
  with_msgtype_def no_children_def

text \<open>
  A sinking whose ship has a corner coordinate 0 is decoded without its corners,
  whatever the other coordinates are.
\<close>

lemma round_trip_sink_zero_corner:
  assumes "a = 0 \<or> b = 0 \<or> c = 0 \<or> d = 0"
  shows "round_trip
           (NotificationMsg (NotificationMessage (Some x) (Some y) Sink (Some ((a, b), (c, d))))) =
     Inr (NotificationMsg (NotificationMessage (Some x) (Some y) Sink None))"
  using assms
  by (auto simp add: round_trip_def fromXML_def toXML_defs new_NotificationMessage_def
        truthy_number_def truthy_boolean_def)

text \<open>
  C1 (decoding the encoding gives the message back, for every variant and all field
  values, the four corner coordinates of a \<open>Sink\<close> notification included). The code
  does not do this for a sunk ship that touches row or column 0. \<open>fromXML\<close> keeps the
  corners only if
  \<^verbatim>\<open>kmessage.xstart && kmessage.xstop && kmessage.ystart && kmessage.ystop\<close>
  is truthy, and the number 0 is falsy. The ship at (0, 2)..(0, 4), sunk by the shot at
  (0, 3), is encoded with its four corners and decoded without them.
\<close>

theorem sink_zero_corner_loses_span:
  "toXML (NotificationMsg (respond (MoveMessage (Some 0) (Some 3)) sink (Some ((0, 2), (0, 4))))) =
     Inr (Some ((with_msgtype ''Notification'' 5)
            \<lparr> k_fieldx := Some 0, k_fieldy := Some 3, k_fieldstate := Some 1,
              k_death := Some True,
              k_xstart := Some 0, k_xstop := Some 0, k_ystart := Some 2, k_ystop := Some 4 \<rparr>))
   \<and> round_trip
        (NotificationMsg (NotificationMessage (Some 0) (Some 3) Sink (Some ((0, 2), (0, 4))))) =
      Inr (NotificationMsg (NotificationMessage (Some 0) (Some 3) Sink None))"
  by code_simp

text \<open>A type code from 0 to 8 always gives a message, whatever children the input has.\<close>

lemma known_code_cases:
  "(code :: int) \<in> {0..8} \<Longrightarrow>
     code = 0 \<or> code = 1 \<or> code = 2 \<or> code = 3 \<or> code = 4 \<or> code = 5 \<or> code = 6
       \<or> code = 7 \<or> code = 8"
  by auto

lemma fromXML_known_code:
  assumes "type_code parsed \<in> Some ` {0..8}"
  shows "\<exists>m. fromXML parsed = Inr m"
proof -
  obtain kmessage name code where p: "parsed = Some kmessage"
    and mt: "k_msgtype kmessage = Some (Msgtype name (Some code))" and c: "code \<in> {0..8}"
    using assms by (auto simp add: type_code_def split: option.splits msgtype.splits)
  from known_code_cases [OF c] show ?thesis
    using p mt by (auto simp add: fromXML_def)
qed

text \<open>
  C8 as the specification states it (an input with no root node, or whose type code is
  none of the ten known codes, makes the decoder fail; the decoder never builds a message
  in part) does not hold in its last clause. \<open>fromXML\<close> passes each child to the
  constructor through a cast and tests the presence of none: a document with the type
  code of a move and no \<open>fieldx\<close> and \<open>fieldy\<close> is decoded to a move whose
  coordinates are both \<open>undefined\<close>.
\<close>

theorem fromXML_builds_move_without_fields:
  "fromXML bare_move = Inr (MoveMsg (MoveMessage None None))"
  by code_simp

text \<open>
  C8, amended: an input with no root node, or whose type code is none of the ten known
  codes, makes the decoder fail, and no message is built for it. With no root the error
  is \<open>invalid formatting\<close>; an input that has no type code, or one outside 0..9, gives
  an error; with a \<open>msgtype\<close> node whose code is outside 0..9 the error is
  \<open>Unknown message type\<close>. For a known type code the decoder does not check that the
  fields of the variant are present: the codes 0 to 8 always give a message, and a move
  is built from the \<open>fieldx\<close> and \<open>fieldy\<close> the input has, absent ones left
  \<open>undefined\<close>.
\<close>

theorem fromXML_fails:
  "(parsed = None \<longrightarrow> fromXML parsed = Inl (Error ''invalid formatting''))
   \<and> (type_code parsed \<notin> Some ` {0..9} \<longrightarrow> (\<exists>e. fromXML parsed = Inl e))
   \<and> (\<forall>kmessage name code.
         parsed = Some kmessage \<and> k_msgtype kmessage = Some (Msgtype name code)
           \<and> code \<notin> Some ` {0..9}
         \<longrightarrow> fromXML parsed = Inl (Error (unknown_message_type code)))
   \<and> (type_code parsed \<in> Some ` {0..8} \<longrightarrow> (\<exists>m. fromXML parsed = Inr m))
   \<and> (\<forall>kmessage name.
         parsed = Some kmessage \<and> k_msgtype kmessage = Some (Msgtype name (Some 4))
         \<longrightarrow> fromXML parsed =
               Inr (MoveMsg (MoveMessage (k_fieldx kmessage) (k_fieldy kmessage))))"
proof -
  have "type_code parsed \<notin> Some ` {0..9} \<longrightarrow> (\<exists>e. fromXML parsed = Inl e)"
    by (auto simp add: fromXML_def type_code_def split: option.splits msgtype.splits)
  moreover have "\<forall>kmessage name code.
         parsed = Some kmessage \<and> k_msgtype kmessage = Some (Msgtype name code)
           \<and> code \<notin> Some ` {0..9}
         \<longrightarrow> fromXML parsed = Inl (Error (unknown_message_type code))"
    by (auto simp add: fromXML_def)
  moreover have "\<forall>kmessage name.
         parsed = Some kmessage \<and> k_msgtype kmessage = Some (Msgtype name (Some 4))
         \<longrightarrow> fromXML parsed =
               Inr (MoveMsg (MoveMessage (k_fieldx kmessage) (k_fieldy kmessage)))"
    by (simp add: fromXML_def)
  ultimately show ?thesis
    using fromXML_known_code [of parsed] by (simp add: fromXML_def)
qed

theorem fromXML_fails_witness:
  "fromXML None = Inl (Error ''invalid formatting'')
   \<and> type_code (Some (with_msgtype ''Surrender'' 12)) \<notin> Some ` {0..9}
   \<and> k_msgtype (with_msgtype ''Surrender'' 12) = Some (Msgtype (Some ''Surrender'') (Some 12))
   \<and> fromXML (Some (with_msgtype ''Surrender'' 12)) = Inl (Error ''Unknown message type: 12'')
   \<and> type_code bare_move \<in> Some ` {0..8}
   \<and> k_msgtype (with_msgtype ''Move'' 4) = Some (Msgtype (Some ''Move'') (Some 4))
   \<and> fromXML bare_move = Inr (MoveMsg (MoveMessage None None))"
proof -
  have a: "type_code (Some (with_msgtype ''Surrender'' 12)) \<notin> Some ` {0..9}"
    by (simp add: type_code_def with_msgtype_def no_children_def image_iff)
  have b: "k_msgtype (with_msgtype ''Surrender'' 12) =
      Some (Msgtype (Some ''Surrender'') (Some 12))"
    by (simp add: with_msgtype_def no_children_def)
  have c: "Some (12 :: int) \<notin> Some ` {0..9}" by (simp add: image_iff)
  have d: "unknown_message_type (Some 12) = ''Unknown message type: 12''" by code_simp
  have e: "type_code bare_move \<in> Some ` {0..8}"
    by (simp add: bare_move_def type_code_def with_msgtype_def no_children_def)
  have f: "k_msgtype (with_msgtype ''Move'' 4) = Some (Msgtype (Some ''Move'') (Some 4))"
    by (simp add: with_msgtype_def no_children_def)
  have g: "k_fieldx (with_msgtype ''Move'' 4) = None" "k_fieldy (with_msgtype ''Move'' 4) = None"
    by (simp_all add: with_msgtype_def no_children_def)
  show ?thesis
    using a b c d e f g fromXML_fails [of None]
      fromXML_fails [of "Some (with_msgtype ''Surrender'' 12)"]
      fromXML_fails [of bare_move]
    by (simp add: bare_move_def)
qed

section \<open>Properties of the client\<close>

subsection \<open>Firing\<close>

lemma find_position:
  "(find (\<lambda>(x, y). x = fst p \<and> y = snd p) ps \<noteq> None) = (p \<in> set ps)"
  by (induction ps) (auto simp: prod_eq_iff)

text \<open>
  C2 (a fire request at a position already in \<open>firedAt\<close>, or made in a phase other
  than \<open>FIRE_SHIPS_SELF\<close>, is rejected with an error; the rejected call changes nothing
  of the client and writes no move). The whole client, the socket with what was written
  to it included, is the same after every call that returned an error.
\<close>

theorem sendFireAt_rejects:
  "(gameState c \<noteq> FIRE_SHIPS_SELF \<longrightarrow>
      sendFireAt c position = (Some (Error ''cannot fire at ships right now''), c))
   \<and> (gameState c = FIRE_SHIPS_SELF \<and> position \<in> set (firedAt c) \<longrightarrow>
      sendFireAt c position = (Some (Error ''already fired in this position''), c))
   \<and> (\<forall>e c'. sendFireAt c position = (Some e, c') \<longrightarrow> c' = c)"
  by (auto simp add: sendFireAt_def find_position simp del: not_None_eq split: if_splits)

theorem sendFireAt_rejects_witness:
  "gameState session_await_self \<noteq> FIRE_SHIPS_SELF
   \<and> sendFireAt session_await_self (3, 4) =
       (Some (Error ''cannot fire at ships right now''), session_await_self)
   \<and> gameState session_resolved = FIRE_SHIPS_SELF
   \<and> (3, 4) \<in> set (firedAt session_resolved)
   \<and> sendFireAt session_resolved (3, 4) =
       (Some (Error ''already fired in this position''), session_resolved)"
proof -
  have a: "gameState session_await_self \<noteq> FIRE_SHIPS_SELF" by code_simp
  have b: "gameState session_resolved = FIRE_SHIPS_SELF" by code_simp
  have c: "(3, 4) \<in> set (firedAt session_resolved)" by code_simp
  show ?thesis
    using a b c sendFireAt_rejects [of session_await_self "(3, 4)"]
      sendFireAt_rejects [of session_resolved "(3, 4)"]
    by simp
qed

text \<open>
  C3 (after a successful fire request the phase is \<open>AWAIT_RESPONSE_OTHER\<close> until the
  notification arrives, so a second fire request is rejected while a shot is pending).
  The code does not do this: \<open>sendFireAt\<close> does not write the phase, and no statement
  of the class assigns \<open>AWAIT_RESPONSE_OTHER\<close>. In the session, after the shot at
  (3, 4) the phase is still \<open>FIRE_SHIPS_SELF\<close>; a shot at (5, 6) is accepted, and so
  is a second shot at (3, 4), which enters \<open>firedAt\<close> only when it is answered. Two
  shots are pending.
\<close>

theorem second_fire_accepted_while_pending:
  "gameState session_fire_self = FIRE_SHIPS_SELF
   \<and> sendFireAt session_fire_self (3, 4) = (None, session_pending)
   \<and> raw_listeners session_pending = [(3, 4)]
   \<and> gameState session_pending = FIRE_SHIPS_SELF
   \<and> fst (sendFireAt session_pending (5, 6)) = None
   \<and> raw_listeners (snd (sendFireAt session_pending (5, 6))) = [(3, 4), (5, 6)]
   \<and> fst (sendFireAt session_pending (3, 4)) = None
   \<and> raw_listeners (snd (sendFireAt session_pending (3, 4))) = [(3, 4), (3, 4)]"
  by code_simp

text \<open>
  A successful call is possible in one phase only and at a position not fired at
  before; it registers its listener and writes the move, and nothing else.
\<close>

lemma sendFireAt_accepted:
  assumes "sendFireAt c0 position = (None, c)"
  shows "gameState c0 = FIRE_SHIPS_SELF"
    and "position \<notin> set (firedAt c0)"
    and "c = socket_write (c0 \<lparr> raw_listeners := raw_listeners c0 @ [position] \<rparr>)
              (MoveMessage_toXML (MoveMessage (Some (fst position)) (Some (snd position))))"
  using assms
  by (auto simp add: sendFireAt_def find_position simp del: not_None_eq split: if_splits)

lemma sendFireAt_keeps_gameState:
  "gameState (snd (sendFireAt c position)) = gameState c"
  by (simp add: sendFireAt_def socket_write_def)

text \<open>
  So a second request is accepted while the first is pending, at every position that no
  resolved shot has fired at, the position of the pending shot included.
\<close>

lemma sendFireAt_twice:
  assumes "sendFireAt c p = (None, c1)" and "q \<notin> set (firedAt c)"
  shows "\<exists>c2. sendFireAt c1 q = (None, c2) \<and> raw_listeners c2 = raw_listeners c @ [p, q]"
  using assms sendFireAt_accepted [OF assms(1)]
  by (simp add: sendFireAt_def socket_write_def find_position del: not_None_eq)

subsection \<open>The answer to a shot\<close>












subsection \<open>Messages of the handshake\<close>

text \<open>
  C5 (a received \<open>Begin\<close> is echoed, \<open>firedAt\<close> is cleared, the phase becomes
  \<open>FIRE_SHIPS_OTHER\<close>, and \<open>begin\<close> is emitted with \<open>false\<close> when the phase was
  \<open>SHIP_SETUP\<close> and with \<open>true\<close> for every other phase). The client has a socket, as
  every client that receives a message has; nothing else is asked of it.
\<close>

theorem begin_handled:
  assumes "fromXML xmlStr = Inr BeginMsg" and "socket c = Some s"
  shows "handleMessage c xmlStr =
     (None,
      c \<lparr> gameState := FIRE_SHIPS_OTHER,
          socket := Some (s \<lparr> written := written s @ [BeginMessage_toXML] \<rparr>),
          firedAt := [],
          emitted := emitted c @ [E_begin (gameState c \<noteq> SHIP_SETUP)] \<rparr>)"
  using assms by (simp add: handleMessage_def socket_write_def emit_def)

theorem begin_handled_witness:
  "fromXML BeginMessage_toXML = Inr BeginMsg
   \<and> socket session_ship_setup = Some (the (socket session_ship_setup))
   \<and> gameState session_ship_setup = SHIP_SETUP
   \<and> handleMessage session_ship_setup BeginMessage_toXML =
       (None,
        session_ship_setup
          \<lparr> gameState := FIRE_SHIPS_OTHER,
            socket := Some ((the (socket session_ship_setup))
               \<lparr> written := written (the (socket session_ship_setup)) @ [BeginMessage_toXML] \<rparr>),
            firedAt := [],
            emitted := emitted session_ship_setup @ [E_begin False] \<rparr>)
   \<and> socket session_resolved = Some (the (socket session_resolved))
   \<and> gameState session_resolved = FIRE_SHIPS_SELF
   \<and> firedAt session_resolved = [(3, 4)]
   \<and> handleMessage session_resolved BeginMessage_toXML =
       (None,
        session_resolved
          \<lparr> gameState := FIRE_SHIPS_OTHER,
            socket := Some ((the (socket session_resolved))
               \<lparr> written := written (the (socket session_resolved)) @ [BeginMessage_toXML] \<rparr>),
            firedAt := [],
            emitted := emitted session_resolved @ [E_begin True] \<rparr>)"
proof -
  have a: "fromXML BeginMessage_toXML = Inr BeginMsg" by code_simp
  have b: "socket session_ship_setup = Some (the (socket session_ship_setup))" by code_simp
  have c: "gameState session_ship_setup = SHIP_SETUP" by code_simp
  have d: "socket session_resolved = Some (the (socket session_resolved))" by code_simp
  have e: "gameState session_resolved = FIRE_SHIPS_SELF" by code_simp
  have f: "firedAt session_resolved = [(3, 4)]" by code_simp
  show ?thesis
    using a b c d e f begin_handled [OF a b] begin_handled [OF a d]
    by simp
qed

text \<open>
  C10 (a received \<open>Nick\<close> is answered with the client's own \<open>Nick\<close>, sets the phase
  to \<open>SHIP_SETUP\<close>, replaces the opponent by a player that is not \<open>me\<close> and has the
  received nickname, and emits \<open>connect\<close>, in every phase). Nothing is assumed of the
  phase of the client; in the example a game is under way and a shot is pending.
\<close>

theorem nick_handled_in_every_phase:
  assumes "fromXML xmlStr = Inr (NickMsg nick)" and "socket c = Some s"
  shows "handleMessage c xmlStr =
     (None,
      c \<lparr> gameState := SHIP_SETUP,
          socket := Some (s \<lparr> written := written s @ [NickMessage_toXML (Some (nickname c))] \<rparr>),
          opponent := Some (Player False nick),
          emitted := emitted c @ [E_connect (Player False nick)] \<rparr>)"
  using assms by (simp add: handleMessage_def socket_write_def emit_def)

theorem nick_handled_in_every_phase_witness:
  "fromXML (NickMessage_toXML (Some ''C'')) = Inr (NickMsg (Some ''C''))
   \<and> socket session_pending = Some (the (socket session_pending))
   \<and> gameState session_pending = FIRE_SHIPS_SELF
   \<and> opponent session_pending = Some (Player False (Some ''B''))
   \<and> handleMessage session_pending (NickMessage_toXML (Some ''C'')) =
       (None,
        session_pending
          \<lparr> gameState := SHIP_SETUP,
            socket := Some ((the (socket session_pending))
               \<lparr> written := written (the (socket session_pending)) @
                   [NickMessage_toXML (Some ''A'')] \<rparr>),
            opponent := Some (Player False (Some ''C'')),
            emitted := emitted session_pending @ [E_connect (Player False (Some ''C''))] \<rparr>)"
proof -
  have a: "fromXML (NickMessage_toXML (Some ''C'')) = Inr (NickMsg (Some ''C''))" by code_simp
  have b: "socket session_pending = Some (the (socket session_pending))" by code_simp
  have c: "gameState session_pending = FIRE_SHIPS_SELF" by code_simp
  have d: "opponent session_pending = Some (Player False (Some ''B''))" by code_simp
  have e: "nickname session_pending = ''A''" by code_simp
  show ?thesis
    using a b c d e nick_handled_in_every_phase [OF a b]
    by simp
qed

subsection \<open>Answering the opponent's shot\<close>

text \<open>
  C9 (a move response submitted in \<open>AWAIT_RESPONSE_SELF\<close> sends the notification,
  sets the phase to \<open>FIRE_SHIPS_SELF\<close> and emits \<open>canFire\<close>; in any other phase it
  fails with an error and changes nothing). The notification is one that can be
  encoded, which every notification built by \<open>respond\<close> from a sunk ship's corners is.
\<close>

theorem sendMoveResponse_spec:
  "(gameState c = AWAIT_RESPONSE_SELF \<and> socket c = Some s
      \<and> NotificationMessage_toXML notification = Inr data
    \<longrightarrow> sendMoveResponse c notification =
          (None,
           c \<lparr> gameState := FIRE_SHIPS_SELF,
               socket := Some (s \<lparr> written := written s @ [data] \<rparr>),
               emitted := emitted c @ [E_canFire] \<rparr>))
   \<and> (gameState c \<noteq> AWAIT_RESPONSE_SELF
    \<longrightarrow> sendMoveResponse c notification =
          (Some (Error ''cannot send response right now''), c))"
  by (simp add: sendMoveResponse_def socket_write_def emit_def)

theorem sendMoveResponse_spec_witness:
  "gameState session_await_self = AWAIT_RESPONSE_SELF
   \<and> socket session_await_self = Some (the (socket session_await_self))
   \<and> NotificationMessage_toXML (respond (MoveMessage (Some 2) (Some 2)) miss None) =
       Inr (Some ((with_msgtype ''Notification'' 5)
              \<lparr> k_fieldx := Some 2, k_fieldy := Some 2, k_fieldstate := Some 99 \<rparr>))
   \<and> sendMoveResponse session_await_self (respond (MoveMessage (Some 2) (Some 2)) miss None) =
       (None,
        session_await_self
          \<lparr> gameState := FIRE_SHIPS_SELF,
            socket := Some ((the (socket session_await_self))
              \<lparr> written := written (the (socket session_await_self)) @
                  [Some ((with_msgtype ''Notification'' 5)
                     \<lparr> k_fieldx := Some 2, k_fieldy := Some 2, k_fieldstate := Some 99 \<rparr>)] \<rparr>),
            emitted := emitted session_await_self @ [E_canFire] \<rparr>)
   \<and> gameState session_fire_other \<noteq> AWAIT_RESPONSE_SELF
   \<and> sendMoveResponse session_fire_other (respond (MoveMessage (Some 2) (Some 2)) miss None) =
       (Some (Error ''cannot send response right now''), session_fire_other)"
proof -
  have a: "gameState session_await_self = AWAIT_RESPONSE_SELF" by code_simp
  have b: "socket session_await_self = Some (the (socket session_await_self))" by code_simp
  have c: "NotificationMessage_toXML (respond (MoveMessage (Some 2) (Some 2)) miss None) =
       Inr (Some ((with_msgtype ''Notification'' 5)
              \<lparr> k_fieldx := Some 2, k_fieldy := Some 2, k_fieldstate := Some 99 \<rparr>))"
    by code_simp
  have d: "gameState session_fire_other \<noteq> AWAIT_RESPONSE_SELF" by code_simp
  show ?thesis
    using a b c d
      sendMoveResponse_spec [of session_await_self "the (socket session_await_self)"
        "respond (MoveMessage (Some 2) (Some 2)) miss None"
        "Some ((with_msgtype ''Notification'' 5)
              \<lparr> k_fieldx := Some 2, k_fieldy := Some 2, k_fieldstate := Some 99 \<rparr>)"]
      sendMoveResponse_spec [of session_fire_other undefined
        "respond (MoveMessage (Some 2) (Some 2)) miss None" undefined]
    by simp
qed

subsection \<open>The end of the game and of the connection\<close>

lemma sendGameOver_keeps_gameState: "gameState (snd (sendGameOver c)) = gameState c"
  by (simp add: sendGameOver_def socket_write_def emit_def)

text \<open>
  C7 (declaring the game over in an allowed phase emits \<open>gameOver\<close> with the opponent,
  sends \<open>GameOver\<close> and sets the phase to \<open>GAME_OVER\<close>). The code does not set the
  phase: \<open>sendGameOver\<close> emits and writes, and leaves \<open>_gameState\<close> as it was, while
  \<open>#handleMessage\<close> sets \<open>GAME_OVER\<close> when the peer's \<open>GameOver\<close> arrives. In the
  session the call is made in \<open>AWAIT_RESPONSE_SELF\<close>, where the guard lets it pass.
\<close>

theorem sendGameOver_leaves_phase:
  "gameState session_await_self = AWAIT_RESPONSE_SELF
   \<and> fst (sendGameOver session_await_self) = None
   \<and> emitted (snd (sendGameOver session_await_self)) =
       emitted session_await_self @ [E_gameOver (Some (Player False (Some ''B'')))]
   \<and> written (the (socket (snd (sendGameOver session_await_self)))) =
       written (the (socket session_await_self)) @ [GameOverMessage_toXML]
   \<and> gameState (snd (sendGameOver session_await_self)) = AWAIT_RESPONSE_SELF
   \<and> gameState (snd (handleMessage session_await_self GameOverMessage_toXML)) = GAME_OVER"
  by code_simp

text \<open>
  C6 as the specification states it (when the transport closes the phase becomes
  \<open>DISCONNECTED\<close>, every pending shot is rejected and the opponent is reset) does not
  hold. In the session, with the shot at (3, 4) pending, \<open>disconnect\<close> is called and
  the socket closes: the phase is \<open>DISCONNECTED\<close>, the listener of the shot is still
  registered, its promise is not settled, and the opponent is still \<open>B\<close>.
\<close>

theorem close_keeps_pending_and_opponent:
  "fst (disconnect session_pending) = None
   \<and> gameState (on_close (snd (disconnect session_pending))) = DISCONNECTED
   \<and> raw_listeners (on_close (snd (disconnect session_pending))) = [(3, 4)]
   \<and> resolved (on_close (snd (disconnect session_pending))) = []
   \<and> opponent (on_close (snd (disconnect session_pending))) = Some (Player False (Some ''B''))"
  by code_simp

text \<open>
  C6, amended: when \<open>disconnect\<close> is called in a phase other than \<open>DISCONNECTED\<close>
  and the transport then closes, the phase becomes \<open>DISCONNECTED\<close>; the pending
  shots stay pending, neither rejected nor removed, and the opponent is left as it was.
  Of the whole client only the phase and the socket's own state change.
\<close>

theorem disconnect_then_close:
  assumes "gameState c \<noteq> DISCONNECTED" and "socket c = Some s"
  shows "\<exists>c1. disconnect c = (None, c1)
           \<and> on_close c1 =
               c \<lparr> gameState := DISCONNECTED,
                   socket := Some (s \<lparr> ended := True, once_close := 0 \<rparr>) \<rparr>
           \<and> gameState (on_close c1) = DISCONNECTED
           \<and> raw_listeners (on_close c1) = raw_listeners c
           \<and> resolved (on_close c1) = resolved c
           \<and> opponent (on_close c1) = opponent c"
  using assms by (simp add: disconnect_def on_close_def)

theorem disconnect_then_close_witness:
  "gameState session_pending \<noteq> DISCONNECTED
   \<and> socket session_pending = Some (the (socket session_pending))
   \<and> (\<exists>c1. disconnect session_pending = (None, c1)
           \<and> on_close c1 =
               session_pending
                 \<lparr> gameState := DISCONNECTED,
                   socket := Some ((the (socket session_pending))
                     \<lparr> ended := True, once_close := 0 \<rparr>) \<rparr>
           \<and> gameState (on_close c1) = DISCONNECTED
           \<and> raw_listeners (on_close c1) = [(3, 4)]
           \<and> resolved (on_close c1) = []
           \<and> opponent (on_close c1) = Some (Player False (Some ''B'')))"
proof -
  have a: "gameState session_pending \<noteq> DISCONNECTED" by code_simp
  have b: "socket session_pending = Some (the (socket session_pending))" by code_simp
  have c: "raw_listeners session_pending = [(3, 4)]" "resolved session_pending = []"
    "opponent session_pending = Some (Player False (Some ''B''))" by code_simp+
  show ?thesis
    using a b c disconnect_then_close [OF a b]
    by simp
qed

end
